theory Spec2Isabelle
  imports Main
begin

section \<open>Python values and errors\<close>

text \<open>
  The library pympeg builds an ffmpeg command line from a chain of nodes. This theory
  embeds \<^verbatim>\<open>pympeg/_util.py\<close> and \<^verbatim>\<open>pympeg/_filter.py\<close>. Functions whose Python name
  starts with an underscore lose it here (\<^verbatim>\<open>_check_arg_type\<close> is \<open>check_arg_type\<close>), and
  the builders \<^verbatim>\<open>input\<close>, \<^verbatim>\<open>filter\<close>, \<^verbatim>\<open>output\<close> and \<^verbatim>\<open>option\<close> carry the suffix
  \<open>_builder\<close>, since their names are taken in Isabelle/HOL.
\<close>

text \<open>A \<^verbatim>\<open>Label\<close> object: the string that links an output to an input.\<close>

datatype Label = Label (label: string)

text \<open>
  The scalar values that reach a \<^verbatim>\<open>%s\<close> format: \<^verbatim>\<open>None\<close>, a \<^verbatim>\<open>str\<close> or an \<^verbatim>\<open>int\<close>.
\<close>

datatype pyval = VNone | VStr string | VInt int

text \<open>The exceptions the modelled code raises, as values.\<close>

datatype error =
    TypeMissing string
  | FilterParamsMissing
  | InputParamsMissing string
  | OutputNodeMissingInRun
  | Error string string pyval
  | IndexError
  | AssertionError

definition digit_char :: "nat \<Rightarrow> char" where
  "digit_char d = ''0123456789'' ! d"

function str_nat :: "nat \<Rightarrow> string" where
  "str_nat n = (if n < 10 then [digit_char n] else str_nat (n div 10) @ [digit_char (n mod 10)])"
  by pat_completeness auto
termination
  by (relation "measure id") auto

declare str_nat.simps [simp del]

definition str_int :: "int \<Rightarrow> string" where
  "str_int i = (if i < 0 then CHR ''-'' # str_nat (nat (- i)) else str_nat (nat i))"

text \<open>What \<^verbatim>\<open>"%s" % v\<close> prints.\<close>

fun py_str :: "pyval \<Rightarrow> string" where
  "py_str VNone = ''None''"
| "py_str (VStr s) = s"
| "py_str (VInt i) = str_int i"

section \<open>Nodes\<close>

text \<open>
  Modelled from the spec: the node classes of \<^verbatim>\<open>pympeg/_node.py\<close>, which is not among the
  sources. Each record holds the attributes the spec lists for the variant (section 3),
  under the names the code of \<^verbatim>\<open>_filter.py\<close> and \<^verbatim>\<open>_util.py\<close> reads them by. The attribute
  \<^verbatim>\<open>filter\<close> of a FilterNode is the field \<open>filter_name\<close>; a parameter dictionary is the
  list of its items in insertion order.
\<close>

record InputNode =
  name :: pyval
  index :: nat

record FilterNode =
  inputs :: "Label list"
  filter_name :: string
  params :: "(string \<times> pyval) list"
  outputs :: Label

record GlobalNode =
  inputs :: "Label list"
  outputs :: "Label list"
  args :: pyval

record OutputNode =
  name :: pyval
  inputs :: "Label list"

text \<open>
  The values a caller can pass to a builder. An OptionNode keeps the raw \<^verbatim>\<open>output\<close>
  argument it was constructed with, so it is declared together with the values.
\<close>

datatype pyobj =
    PNone
  | PStr string
  | PInt int
  | PDict "(string \<times> pyval) list"
  | is_PLabel: PLabel Label
  | is_PInputNode: PInputNode InputNode
  | is_POptionNode: POptionNode OptionNode
  | is_PFilterNode: PFilterNode FilterNode
  | is_PGlobalNode: PGlobalNode GlobalNode
  | is_POutputNode: POutputNode OutputNode
  | is_PList: PList "pyobj list"
and OptionNode = OptionNode (tag: pyval) (name: pyval) (opt_output: pyobj)

text \<open>
  Modelled from the spec: a node of the registry belongs to exactly one of the five
  variants (section 3), so of the five \<^verbatim>\<open>isinstance\<close> tests of the compiler exactly one
  holds for it.
\<close>

datatype node =
    is_Input: Input InputNode
  | is_Option: Option OptionNode
  | is_Filter: Filter FilterNode
  | is_Global: Global GlobalNode
  | is_Output: Output OutputNode

text \<open>
  Modelled from the spec: the label attributes of \<^verbatim>\<open>_node.py\<close>. A label is printed in
  square brackets; \<^verbatim>\<open>in_label\<close> of a FilterNode concatenates its bracketed input labels
  and \<^verbatim>\<open>out_label\<close> is its bracketed output label (section 4.3 and scenario A, where the
  statement reads \<^verbatim>\<open>[0:v] scale=w=320:h=240 [v1]\<close>).
\<close>

definition bracket :: "Label \<Rightarrow> string" where
  "bracket l = ''['' @ label l @ '']''"

definition in_label :: "FilterNode \<Rightarrow> string" where
  "in_label n = concat (map bracket (FilterNode.inputs n))"

definition out_label :: "FilterNode \<Rightarrow> string" where
  "out_label n = bracket (FilterNode.outputs n)"

text \<open>
  Modelled from the spec: \<^verbatim>\<open>InputNode.outputs\<close> of \<^verbatim>\<open>_node.py\<close>, the implicit stream
  reference of an input, built from its index (section 3: \<^verbatim>\<open>0:v\<close> for the first input).
\<close>

definition input_outputs :: "InputNode \<Rightarrow> string" where
  "input_outputs n = str_nat (index n) @ '':v''"

section \<open>Serialisation helpers (\<^verbatim>\<open>_util.py\<close>)\<close>

text \<open>
  \<^verbatim>\<open>get_str_from_params\<close>: \<^verbatim>\<open>keys[0]\<close> raises IndexError on an empty dictionary; the first
  item is printed as \<^verbatim>\<open>k=v\<close> and every later one as \<^verbatim>\<open>:k=v\<close>.
\<close>

fun get_str_from_params :: "(string \<times> pyval) list \<Rightarrow> error + string" where
  "get_str_from_params [] = Inl IndexError"
| "get_str_from_params ((k0, v0) # rest) =
     Inr (concat ((k0 @ ''='' @ py_str v0) # map (\<lambda>(k, v). '':'' @ k @ ''='' @ py_str v) rest))"

definition get_str_from_filter :: "FilterNode \<Rightarrow> error + string" where
  "get_str_from_filter node =
     (case get_str_from_params (params node) of
        Inl e \<Rightarrow> Inl e
      | Inr ps \<Rightarrow>
          Inr (concat [in_label node @ '' '' @ filter_name node @ ''='' @ ps @ '' '' @
                       out_label node @ '';'']))"

text \<open>
  Modelled from the spec: \<^verbatim>\<open>get_str_from_global\<close>, which \<^verbatim>\<open>_filter.py\<close> imports from
  \<^verbatim>\<open>_util.py\<close> and the sources do not hold. Section 4.3, step 6: the bracketed input labels
  concatenated, a space, the argument string, a space, the bracketed output labels
  concatenated, and a terminating semicolon.
\<close>

definition get_str_from_global :: "GlobalNode \<Rightarrow> string" where
  "get_str_from_global g =
     concat (map bracket (GlobalNode.inputs g)) @ '' '' @ py_str (args g) @ '' '' @
     concat (map bracket (GlobalNode.outputs g)) @ '';''"

section \<open>The graph compiler (\<^verbatim>\<open>_filter.py\<close>)\<close>

type_synonym partition =
  "InputNode list \<times> OptionNode list \<times> FilterNode list \<times> GlobalNode list \<times> OutputNode list"

text \<open>
  The body of the loop of \<^verbatim>\<open>_get_nodes_from_graph\<close>: five \<^verbatim>\<open>isinstance\<close> tests, each
  appending the node to the list of its class.
\<close>

fun partition_step :: "partition \<Rightarrow> node \<Rightarrow> partition" where
  "partition_step (input_nodes, option_nodes, filter_nodes, global_nodes, output_nodes) node =
     (let input_nodes = (case node of Input n \<Rightarrow> input_nodes @ [n] | _ \<Rightarrow> input_nodes);
          filter_nodes = (case node of Filter n \<Rightarrow> filter_nodes @ [n] | _ \<Rightarrow> filter_nodes);
          output_nodes = (case node of Output n \<Rightarrow> output_nodes @ [n] | _ \<Rightarrow> output_nodes);
          global_nodes = (case node of Global n \<Rightarrow> global_nodes @ [n] | _ \<Rightarrow> global_nodes);
          option_nodes = (case node of Option n \<Rightarrow> option_nodes @ [n] | _ \<Rightarrow> option_nodes)
      in (input_nodes, option_nodes, filter_nodes, global_nodes, output_nodes))"

definition get_nodes_from_graph :: "node list \<Rightarrow> error + partition" where
  "get_nodes_from_graph graph =
     (case foldl partition_step ([], [], [], [], []) graph of
        (input_nodes, option_nodes, filter_nodes, global_nodes, output_nodes) \<Rightarrow>
          let node_len = length input_nodes + length option_nodes + length filter_nodes +
                         length global_nodes + length output_nodes
          in if node_len = length graph
             then Inr (input_nodes, option_nodes, filter_nodes, global_nodes, output_nodes)
             else Inl AssertionError)"

definition no_filter_command :: "InputNode list \<Rightarrow> OutputNode list \<Rightarrow> string \<Rightarrow> string" where
  "no_filter_command input_nodes output_nodes cmd =
     concat ([cmd, '' -y''] @
             map (\<lambda>inp. '' -i '' @ py_str (InputNode.name inp) @ '' '') input_nodes @
             map (\<lambda>out. '' '' @ py_str (OutputNode.name out) @ '' '') output_nodes)"

text \<open>A loop that appends \<open>f x\<close> for each \<open>x\<close> and stops at the first exception.\<close>

fun collect :: "('a \<Rightarrow> error + 'b) \<Rightarrow> 'a list \<Rightarrow> error + 'b list" where
  "collect f [] = Inr []"
| "collect f (x # xs) =
     (case f x of
        Inl e \<Rightarrow> Inl e
      | Inr y \<Rightarrow> (case collect f xs of Inl e \<Rightarrow> Inl e | Inr ys \<Rightarrow> Inr (y # ys)))"

text \<open>\<^verbatim>\<open>s.replace(";", "")\<close>: every semicolon of \<open>s\<close> is dropped.\<close>

definition replace_semicolon :: "string \<Rightarrow> string" where
  "replace_semicolon s = filter (\<lambda>c. c \<noteq> CHR '';'') s"

text \<open>
  \<^verbatim>\<open>_get_command_from_graph\<close>. The call of \<^verbatim>\<open>_no_filter_command\<close> passes no \<^verbatim>\<open>cmd\<close>, so the
  direct path prints that function's default \<^verbatim>\<open>ffmpeg\<close>. \<^verbatim>\<open>filter_nodes.pop()\<close> takes the
  last FilterNode off the list.
\<close>

definition get_command_from_graph :: "node list \<Rightarrow> string \<Rightarrow> error + string" where
  "get_command_from_graph graph cmd =
     (case get_nodes_from_graph graph of
        Inl e \<Rightarrow> Inl e
      | Inr (input_nodes, option_nodes, filter_nodes, global_nodes, output_nodes) \<Rightarrow>
          if length filter_nodes = 0
          then Inr (no_filter_command input_nodes output_nodes ''ffmpeg'')
          else
            let last_filter_node = last filter_nodes;
                filter_nodes = butlast filter_nodes;
                result = [cmd] @
                  map (\<lambda>inp. '' -i '' @ py_str (InputNode.name inp) @ '' '') input_nodes @
                  map (\<lambda>opt. '' '' @ py_str (tag opt) @ '' '' @ py_str (OptionNode.name opt))
                    option_nodes @
                  ['' -y -filter_complex \"'']
            in (case collect get_str_from_filter filter_nodes of
                  Inl e \<Rightarrow> Inl e
                | Inr filter_strs \<Rightarrow>
                    (case get_str_from_filter last_filter_node of
                       Inl e \<Rightarrow> Inl e
                     | Inr last_str \<Rightarrow>
                         Inr (concat (result @ filter_strs @
                           map get_str_from_global global_nodes @
                           [replace_semicolon last_str, ''\"''] @
                           concat (map (\<lambda>out.
                             concat (map (\<lambda>inp.
                               ['' -map \"['' @ label inp @ '']\"'',
                                '' '' @ py_str (OutputNode.name out) @ '' ''])
                               (OutputNode.inputs out)))
                             output_nodes))))))"

section \<open>The registry and the builders (\<^verbatim>\<open>_filter.py\<close>)\<close>

text \<open>
  Modelled from the spec: the class \<^verbatim>\<open>Stream\<close> of \<^verbatim>\<open>pympeg/_builder.py\<close>, which is not among
  the sources. Section 4.2: the registry is the ordered sequence of the nodes created so
  far and a running counter of inputs; \<^verbatim>\<open>add\<close> appends a node and returns the registry,
  \<^verbatim>\<open>graph\<close> reads the whole sequence and leaves it as it is.
\<close>

record Stream =
  nodes :: "node list"
  count :: nat

definition add :: "Stream \<Rightarrow> node \<Rightarrow> Stream" where
  "add s n = s\<lparr>nodes := nodes s @ [n]\<rparr>"

definition graph :: "Stream \<Rightarrow> node list" where
  "graph s = nodes s"

text \<open>
  \<^verbatim>\<open>_check_arg_type\<close>: the loop looks at the first positional argument and breaks, so an
  empty argument tuple leaves the flag False. OutputNode is not among the classes tested.
\<close>

fun check_arg_type :: "pyobj list \<Rightarrow> bool" where
  "check_arg_type [] = False"
| "check_arg_type (arg' # rest) =
     (is_PInputNode arg' \<or> is_POptionNode arg' \<or> is_PFilterNode arg' \<or>
      is_PGlobalNode arg' \<or> is_PLabel arg' \<or> is_PList arg')"

text \<open>
  \<^verbatim>\<open>_get_label_param\<close>, in the order of its tests. \<^verbatim>\<open>value[0]\<close> of a FilterNode is its
  output label and of a GlobalNode its first output label (section 4.1); every other
  value, \<^verbatim>\<open>None\<close> among them, reaches the final \<^verbatim>\<open>raise\<close>.
\<close>

fun get_label_param :: "pyobj \<Rightarrow> error + Label" where
  "get_label_param (PLabel l) = Inr l"
| "get_label_param (PStr v) = Inr (Label v)"
| "get_label_param (PFilterNode n) = Inr (FilterNode.outputs n)"
| "get_label_param (PInputNode n) = Inr (Label (input_outputs n))"
| "get_label_param (PGlobalNode n) =
     (case GlobalNode.outputs n of [] \<Rightarrow> Inl IndexError | l # _ \<Rightarrow> Inr l)"
| "get_label_param _ = Inl (TypeMissing ''Filter requires an filter or input type argument'')"

text \<open>
  The pattern every builder repeats: a list gives one label per element, any other value
  gives the label of that value.
\<close>

definition label_params :: "pyobj \<Rightarrow> error + Label list" where
  "label_params v =
     (case v of PList xs \<Rightarrow> collect get_label_param xs | _ \<Rightarrow> collect get_label_param [v])"

text \<open>
  A builder takes the registry and returns its result, a node or an exception, with the
  registry as the call leaves it. \<^verbatim>\<open>input\<close>: the index is the counter's value before
  the increment.
\<close>

definition input_builder :: "pyobj list \<Rightarrow> pyval \<Rightarrow> Stream \<Rightarrow> (error + InputNode) \<times> Stream" where
  "input_builder args' name' s =
     (if name' = VNone
      then (Inl (InputParamsMissing ''File name required in input function''), s)
      else
        let node = \<lparr>InputNode.name = name', index = count s\<rparr>;
            s1 = add s (Input node)
        in (Inr node, s1\<lparr>count := count s1 + 1\<rparr>))"

text \<open>
  \<^verbatim>\<open>filter\<close>. The constructor \<^verbatim>\<open>FilterNode(**kwargs)\<close> belongs to \<^verbatim>\<open>_node.py\<close>; it is the
  parameter \<open>FilterNode_init\<close>.
\<close>

definition filter_builder ::
  "((string \<times> pyobj) list \<Rightarrow> error + FilterNode) \<Rightarrow> pyobj list \<Rightarrow> (string \<times> pyobj) list \<Rightarrow>
   Stream \<Rightarrow> (error + FilterNode) \<times> Stream" where
  "filter_builder FilterNode_init args' kwargs s =
     (if \<not> check_arg_type args'
      then (Inl (TypeMissing ''Filter requires an filter or input type argument''), s)
      else if length kwargs = 0 then (Inl FilterParamsMissing, s)
      else
        (case (case map_of kwargs ''inputs'' of
                 Some v \<Rightarrow> Inr v
               | None \<Rightarrow> (case args' of [] \<Rightarrow> Inl IndexError | a # _ \<Rightarrow> Inr a)) of
           Inl e \<Rightarrow> (Inl e, s)
         | Inr inputs' \<Rightarrow>
             (case FilterNode_init kwargs of
                Inl e \<Rightarrow> (Inl e, s)
              | Inr filter_node \<Rightarrow>
                  (case label_params inputs' of
                     Inl e \<Rightarrow> (Inl e, s)
                   | Inr ls \<Rightarrow>
                       let filter_node =
                             filter_node\<lparr>FilterNode.inputs := FilterNode.inputs filter_node @ ls\<rparr>
                       in (Inr filter_node, add s (Filter filter_node))))))"

text \<open>\<^verbatim>\<open>output\<close>: the result \<open>None\<close> is Python's \<^verbatim>\<open>None\<close>.\<close>

definition output_builder ::
  "pyobj list \<Rightarrow> (string \<times> pyval) list \<Rightarrow> Stream \<Rightarrow> (error + OutputNode option) \<times> Stream" where
  "output_builder args' kwargs s =
     (if \<not> check_arg_type args'
      then (Inl (TypeMissing ''Output requires an filter or input type argument''), s)
      else
        (case map_of kwargs ''name'' of
           None \<Rightarrow> (Inr None, s)
         | Some name' \<Rightarrow>
             let node = \<lparr>OutputNode.name = name', inputs = []\<rparr>
             in (case args' of
                   [] \<Rightarrow> (Inl IndexError, s)
                 | inputs' # _ \<Rightarrow>
                     (case label_params inputs' of
                        Inl e \<Rightarrow> (Inl e, s)
                      | Inr ls \<Rightarrow>
                          let node = node\<lparr>OutputNode.inputs := OutputNode.inputs node @ ls\<rparr>
                          in (Inr (Some node), add s (Output node))))))"

text \<open>\<^verbatim>\<open>arg\<close>, the builder of a GlobalNode. Its parameters all default to \<^verbatim>\<open>None\<close>.\<close>

definition arg :: "pyobj \<Rightarrow> pyval \<Rightarrow> pyobj \<Rightarrow> pyobj \<Rightarrow> Stream \<Rightarrow> (error + GlobalNode) \<times> Stream" where
  "arg caller args' outputs' inputs' s =
     (let node = \<lparr>GlobalNode.inputs = [], outputs = [], args = args'\<rparr>
      in (case label_params (if inputs' \<noteq> PNone then inputs' else caller) of
            Inl e \<Rightarrow> (Inl e, s)
          | Inr ins \<Rightarrow>
              let node = node\<lparr>GlobalNode.inputs := GlobalNode.inputs node @ ins\<rparr>
              in (case label_params outputs' of
                    Inl e \<Rightarrow> (Inl e, s)
                  | Inr outs \<Rightarrow>
                      let node = node\<lparr>GlobalNode.outputs := GlobalNode.outputs node @ outs\<rparr>
                      in (Inr node, add s (Global node)))))"

text \<open>
  \<^verbatim>\<open>option\<close>: the labels of \<^verbatim>\<open>output\<close> are computed first, then the node is constructed from
  the raw arguments.
\<close>

definition option_builder ::
  "pyobj list \<Rightarrow> pyval \<Rightarrow> pyval \<Rightarrow> pyobj \<Rightarrow> Stream \<Rightarrow> (error + OptionNode) \<times> Stream" where
  "option_builder args' tag' name' output' s =
     (case label_params output' of
        Inl e \<Rightarrow> (Inl e, s)
      | Inr outputs' \<Rightarrow>
          let node = OptionNode tag' name' output'
          in (Inr node, add s (Option node)))"

section \<open>Running the command\<close>

text \<open>
  The state \<^verbatim>\<open>run\<close> works on: the registry and the command lines handed to a process so
  far. The external process is a function from the command line to its combined output
  and its exit code (\<^verbatim>\<open>stderr=STDOUT\<close>, so the second component of \<^verbatim>\<open>communicate()\<close> is
  \<^verbatim>\<open>None\<close>).
\<close>

record world =
  registry :: Stream
  launched :: "string list"

definition run ::
  "(string \<Rightarrow> string \<times> int) \<Rightarrow> pyobj \<Rightarrow> world \<Rightarrow> (error + string \<times> pyval) \<times> world" where
  "run popen caller w =
     (if \<not> is_POutputNode caller then (Inl OutputNodeMissingInRun, w)
      else
        (case get_command_from_graph (graph (registry w)) ''ffmpeg'' of
           Inl e \<Rightarrow> (Inl e, w)
         | Inr command \<Rightarrow>
             (case popen command of
                (out, code) \<Rightarrow>
                  let w1 = w\<lparr>launched := launched w @ [command]\<rparr>
                  in if code \<noteq> 0 then (Inl (Error ''ffmpeg'' out VNone), w1)
                     else (Inr (out, VNone), w1))))"

section \<open>Notions of the specification\<close>

text \<open>The sub-sequence of each variant, in the order of the graph.\<close>

definition input_nodes_of :: "node list \<Rightarrow> InputNode list" where
  "input_nodes_of g = concat (map (\<lambda>n. case n of Input x \<Rightarrow> [x] | _ \<Rightarrow> []) g)"

definition option_nodes_of :: "node list \<Rightarrow> OptionNode list" where
  "option_nodes_of g = concat (map (\<lambda>n. case n of Option x \<Rightarrow> [x] | _ \<Rightarrow> []) g)"

definition filter_nodes_of :: "node list \<Rightarrow> FilterNode list" where
  "filter_nodes_of g = concat (map (\<lambda>n. case n of Filter x \<Rightarrow> [x] | _ \<Rightarrow> []) g)"

definition global_nodes_of :: "node list \<Rightarrow> GlobalNode list" where
  "global_nodes_of g = concat (map (\<lambda>n. case n of Global x \<Rightarrow> [x] | _ \<Rightarrow> []) g)"

definition output_nodes_of :: "node list \<Rightarrow> OutputNode list" where
  "output_nodes_of g = concat (map (\<lambda>n. case n of Output x \<Rightarrow> [x] | _ \<Rightarrow> []) g)"

text \<open>Strings joined by a separator, with none after the last.\<close>

fun join :: "string \<Rightarrow> string list \<Rightarrow> string" where
  "join sep [] = []"
| "join sep [x] = x"
| "join sep (x # y # ys) = x @ sep @ join sep (y # ys)"

definition param_str :: "string \<times> pyval \<Rightarrow> string" where
  "param_str kv = fst kv @ ''='' @ py_str (snd kv)"

text \<open>
  The statement of a FilterNode as section 4.3, step 5 words it: the input label, the
  filter name, the parameters joined by a colon, the output label and a semicolon.
\<close>

definition filter_stmt :: "FilterNode \<Rightarrow> string" where
  "filter_stmt n =
     in_label n @ '' '' @ filter_name n @ ''='' @ join '':'' (map param_str (params n)) @
     '' '' @ out_label n @ '';''"

text \<open>
  The segments of the filter path: one per InputNode, one per OptionNode, and for an
  OutputNode one map segment per input label, each followed by the destination name.
\<close>

definition input_segment :: "InputNode \<Rightarrow> string" where
  "input_segment inp = '' -i '' @ py_str (InputNode.name inp) @ '' ''"

definition output_segment :: "OutputNode \<Rightarrow> string" where
  "output_segment out = '' '' @ py_str (OutputNode.name out) @ '' ''"

definition option_segment :: "OptionNode \<Rightarrow> string" where
  "option_segment opt = '' '' @ py_str (tag opt) @ '' '' @ py_str (OptionNode.name opt)"

definition map_segment :: "OutputNode \<Rightarrow> Label \<Rightarrow> string" where
  "map_segment out l = '' -map \"['' @ label l @ '']\"'' @ '' '' @ py_str (OutputNode.name out) @ '' ''"

definition map_segments :: "OutputNode \<Rightarrow> string list" where
  "map_segments out = map (map_segment out) (OutputNode.inputs out)"

text \<open>
  The filter path up to the closing quote of the filter graph, for a graph whose
  FilterNodes are \<open>fs\<close> followed by \<open>lastf\<close>, with the last statement given as \<open>last_stmt\<close>.
\<close>

definition filter_path_head ::
  "string \<Rightarrow> node list \<Rightarrow> FilterNode list \<Rightarrow> string \<Rightarrow> string" where
  "filter_path_head cmd g fs last_stmt =
     cmd @ concat (map input_segment (input_nodes_of g)) @
     concat (map option_segment (option_nodes_of g)) @
     '' -y -filter_complex \"'' @
     concat (map filter_stmt fs) @
     concat (map get_str_from_global (global_nodes_of g)) @
     last_stmt @ ''\"''"

section \<open>Example graphs\<close>

text \<open>
  Scenario A of the specification: the input \<^verbatim>\<open>a.mp4\<close>, the filter \<^verbatim>\<open>scale\<close> with the
  parameters \<^verbatim>\<open>w: 320, h: 240\<close> on the first input's video stream, producing the label
  \<^verbatim>\<open>v1\<close>, and the output \<^verbatim>\<open>out.mp4\<close> fed by that label.
\<close>

definition scale_node :: FilterNode where
  "scale_node =
     \<lparr>FilterNode.inputs = [Label ''0:v''], filter_name = ''scale'',
      params = [(''w'', VInt 320), (''h'', VInt 240)], outputs = Label ''v1''\<rparr>"

definition scenario_A :: "node list" where
  "scenario_A =
     [Input \<lparr>InputNode.name = VStr ''a.mp4'', index = 0\<rparr>,
      Filter scale_node,
      Output \<lparr>OutputNode.name = VStr ''out.mp4'', inputs = [Label ''v1'']\<rparr>]"

text \<open>
  A graph with no FilterNode, but with an OptionNode and a GlobalNode between its input
  and its output.
\<close>

definition concat_node :: GlobalNode where
  "concat_node =
     \<lparr>GlobalNode.inputs = [Label ''0:v'', Label ''0:a''], outputs = [Label ''v'', Label ''a''],
      args = VStr ''concat=n=1:v=1:a=1''\<rparr>"

definition no_filter_graph :: "node list" where
  "no_filter_graph =
     [Input \<lparr>InputNode.name = VStr ''a.mp4'', index = 0\<rparr>,
      Option (OptionNode (VStr ''-t'') (VInt 10) (PStr ''o'')),
      Global concat_node,
      Output \<lparr>OutputNode.name = VStr ''out.wav'', inputs = [Label ''0:a'']\<rparr>]"

text \<open>
  A graph whose only FilterNode, \<^verbatim>\<open>drawtext\<close>, has a semicolon inside the value of its
  parameter \<^verbatim>\<open>text\<close>.
\<close>

definition drawtext_node :: FilterNode where
  "drawtext_node =
     \<lparr>FilterNode.inputs = [Label ''0:v''], filter_name = ''drawtext'',
      params = [(''text'', VStr ''a;b'')], outputs = Label ''v1''\<rparr>"

definition drawtext_graph :: "node list" where
  "drawtext_graph =
     [Input \<lparr>InputNode.name = VStr ''a.mp4'', index = 0\<rparr>,
      Filter drawtext_node,
      Output \<lparr>OutputNode.name = VStr ''out.mp4'', inputs = [Label ''v1'']\<rparr>]"

text \<open>
  A graph with two FilterNodes, a GlobalNode and two OutputNodes; the first output maps
  the label \<^verbatim>\<open>v2\<close> twice and the second maps it again.
\<close>

definition fade_node :: FilterNode where
  "fade_node =
     \<lparr>FilterNode.inputs = [Label ''v1''], filter_name = ''fade'',
      params = [(''t'', VStr ''in''), (''d'', VInt 2)], outputs = Label ''v2''\<rparr>"

definition fan_out_graph :: "node list" where
  "fan_out_graph =
     [Input \<lparr>InputNode.name = VStr ''a.mp4'', index = 0\<rparr>,
      Filter scale_node,
      Global concat_node,
      Filter fade_node,
      Output \<lparr>OutputNode.name = VStr ''x.mp4'', inputs = [Label ''v2'', Label ''v2'']\<rparr>,
      Output \<lparr>OutputNode.name = VStr ''y.mp4'', inputs = [Label ''v2'']\<rparr>]"

definition empty_stream :: Stream where
  "empty_stream = \<lparr>nodes = [], count = 0\<rparr>"

section \<open>The partition\<close>

lemmas nodes_of_defs =
  input_nodes_of_def option_nodes_of_def filter_nodes_of_def global_nodes_of_def
  output_nodes_of_def

lemma foldl_partition_step:
  "foldl partition_step (i, o', f, g, out) ns =
     (i @ input_nodes_of ns, o' @ option_nodes_of ns, f @ filter_nodes_of ns,
      g @ global_nodes_of ns, out @ output_nodes_of ns)"
proof (induction ns arbitrary: i o' f g out)
  case Nil
  show ?case by (simp add: nodes_of_defs)
next
  case (Cons n ns)
  show ?case by (cases n) (simp_all add: Cons.IH nodes_of_defs)
qed

lemma length_nodes_of:
  "length (input_nodes_of g) + length (option_nodes_of g) + length (filter_nodes_of g) +
   length (global_nodes_of g) + length (output_nodes_of g) = length g"
  by (induction g) (simp_all add: nodes_of_defs split: node.splits)

lemma get_nodes_from_graph_eq:
  "get_nodes_from_graph g =
     Inr (input_nodes_of g, option_nodes_of g, filter_nodes_of g, global_nodes_of g,
          output_nodes_of g)"
  using length_nodes_of [of g]
  by (simp add: get_nodes_from_graph_def foldl_partition_step)

lemma map_Input_nodes_of: "map Input (input_nodes_of g) = filter is_Input g"
  by (induction g) (simp_all add: input_nodes_of_def split: node.splits)
lemma map_Option_nodes_of: "map Option (option_nodes_of g) = filter is_Option g"
  by (induction g) (simp_all add: option_nodes_of_def split: node.splits)
lemma map_Filter_nodes_of: "map Filter (filter_nodes_of g) = filter is_Filter g"
  by (induction g) (simp_all add: filter_nodes_of_def split: node.splits)
lemma map_Global_nodes_of: "map Global (global_nodes_of g) = filter is_Global g"
  by (induction g) (simp_all add: global_nodes_of_def split: node.splits)
lemma map_Output_nodes_of: "map Output (output_nodes_of g) = filter is_Output g"
  by (induction g) (simp_all add: output_nodes_of_def split: node.splits)

lemma concat_params_join:
  "concat ((k0 @ ''='' @ py_str v0) # map (\<lambda>(k, v). '':'' @ k @ ''='' @ py_str v) rest) =
   join '':'' (map param_str ((k0, v0) # rest))"
proof (induction rest arbitrary: k0 v0)
  case Nil
  show ?case by (simp add: param_str_def)
next
  case (Cons kv rest)
  obtain k v where kv: "kv = (k, v)" by (cases kv)
  show ?case using Cons.IH [of k v] by (simp add: kv param_str_def)
qed

lemma get_str_from_params_join:
  "ps \<noteq> [] \<Longrightarrow> get_str_from_params ps = Inr (join '':'' (map param_str ps))"
proof (cases ps)
  case Nil
  assume "ps \<noteq> []"
  with Nil show ?thesis by simp
next
  case (Cons kv rest)
  obtain k v where kv: "kv = (k, v)" by (cases kv)
  show ?thesis unfolding Cons kv get_str_from_params.simps concat_params_join ..
qed

lemma get_str_from_filter_stmt:
  "params n \<noteq> [] \<Longrightarrow> get_str_from_filter n = Inr (filter_stmt n)"
  by (simp add: get_str_from_filter_def get_str_from_params_join filter_stmt_def)

lemma get_str_from_filter_empty:
  "params n = [] \<Longrightarrow> get_str_from_filter n = Inl IndexError"
  by (simp add: get_str_from_filter_def)

lemma collect_filter_stmts:
  "list_all (\<lambda>n. params n \<noteq> []) fs \<Longrightarrow> collect get_str_from_filter fs = Inr (map filter_stmt fs)"
  by (induction fs) (simp_all add: get_str_from_filter_stmt)


lemma collect_Inr_all:
  "collect get_str_from_filter fs = Inr ys \<Longrightarrow> list_all (\<lambda>n. params n \<noteq> []) fs"
proof (induction fs arbitrary: ys)
  case Nil
  show ?case by simp
next
  case (Cons n fs)
  from Cons.prems have "params n \<noteq> []"
    by (cases "params n") (simp_all add: get_str_from_filter_def)
  moreover from Cons.prems obtain zs where "collect get_str_from_filter fs = Inr zs"
    by (auto split: sum.splits)
  ultimately show ?case using Cons.IH by simp
qed

lemma direct_path_command:
  "filter_nodes_of g = [] \<Longrightarrow>
   get_command_from_graph g cmd =
     Inr (''ffmpeg'' @ '' -y'' @ concat (map input_segment (input_nodes_of g)) @
          concat (map output_segment (output_nodes_of g)))"
  by (simp add: get_command_from_graph_def get_nodes_from_graph_eq no_filter_command_def
      input_segment_def [abs_def] output_segment_def [abs_def])

lemma concat_map_segments:
  "concat (concat (map (\<lambda>out. concat (map (\<lambda>inp.
      ['' -map \"['' @ label inp @ '']\"'', '' '' @ py_str (OutputNode.name out) @ '' ''])
      (OutputNode.inputs out))) outs)) =
   concat (map (\<lambda>out. concat (map_segments out)) outs)"
proof (induction outs)
  case Nil
  show ?case by simp
next
  case (Cons out outs)
  have "concat (concat (map (\<lambda>inp.
      ['' -map \"['' @ label inp @ '']\"'', '' '' @ py_str (OutputNode.name out) @ '' ''])
      ls)) = concat (map (map_segment out) ls)" for ls
    by (induction ls) (simp_all add: map_segment_def)
  then show ?case using Cons.IH by (simp add: map_segments_def)
qed

lemma filter_path_command:
  assumes fs: "filter_nodes_of g = fs @ [lastf]"
    and ok: "list_all (\<lambda>n. params n \<noteq> []) (fs @ [lastf])"
  shows "get_command_from_graph g cmd =
     Inr (filter_path_head cmd g fs (replace_semicolon (filter_stmt lastf)) @
          concat (map (\<lambda>out. concat (map_segments out)) (output_nodes_of g)))"
proof -
  from ok have c: "collect get_str_from_filter fs = Inr (map filter_stmt fs)"
    by (simp add: collect_filter_stmts)
  from ok have l: "get_str_from_filter lastf = Inr (filter_stmt lastf)"
    by (simp add: get_str_from_filter_stmt)
  show ?thesis
    unfolding get_command_from_graph_def get_nodes_from_graph_eq
    by (simp add: fs c l concat_map_segments [simplified] filter_path_head_def input_segment_def [abs_def]
        option_segment_def [abs_def] del: map_append)
qed

lemma filter_path_command_Inr:
  assumes r: "get_command_from_graph g cmd = Inr command"
    and ne: "filter_nodes_of g \<noteq> []"
  shows "list_all (\<lambda>n. params n \<noteq> []) (filter_nodes_of g)"
proof -
  from ne obtain fs lastf where fs: "filter_nodes_of g = fs @ [lastf]"
    by (metis append_butlast_last_id)
  from r obtain ys where c: "collect get_str_from_filter fs = Inr ys"
    unfolding get_command_from_graph_def get_nodes_from_graph_eq
    by (auto simp: fs split: sum.splits)
  from r c obtain y where l: "get_str_from_filter lastf = Inr y"
    unfolding get_command_from_graph_def get_nodes_from_graph_eq
    by (auto simp: fs split: sum.splits)
  from l have "params lastf \<noteq> []"
    by (cases "params lastf") (simp_all add: get_str_from_filter_def)
  with collect_Inr_all [OF c] show ?thesis by (simp add: fs)
qed

text \<open>
  C7: for every node sequence, the partition step returns five sub-sequences, never the
  assertion's failure. Each sub-sequence holds the nodes of one variant in their original
  relative order: wrapped again, it is the graph filtered by that variant. The five lengths
  add up to the length of the graph.
\<close>

theorem partition_keeps_order_and_total:
  "\<exists>input_nodes option_nodes filter_nodes global_nodes output_nodes.
     get_nodes_from_graph g =
       Inr (input_nodes, option_nodes, filter_nodes, global_nodes, output_nodes) \<and>
     map Input input_nodes = filter is_Input g \<and>
     map Option option_nodes = filter is_Option g \<and>
     map Filter filter_nodes = filter is_Filter g \<and>
     map Global global_nodes = filter is_Global g \<and>
     map Output output_nodes = filter is_Output g \<and>
     length input_nodes + length option_nodes + length filter_nodes + length global_nodes +
       length output_nodes = length g"
proof (intro exI conjI)
  show "get_nodes_from_graph g =
      Inr (input_nodes_of g, option_nodes_of g, filter_nodes_of g, global_nodes_of g,
           output_nodes_of g)"
    by (rule get_nodes_from_graph_eq)
  show "map Input (input_nodes_of g) = filter is_Input g" by (rule map_Input_nodes_of)
  show "map Option (option_nodes_of g) = filter is_Option g" by (rule map_Option_nodes_of)
  show "map Filter (filter_nodes_of g) = filter is_Filter g" by (rule map_Filter_nodes_of)
  show "map Global (global_nodes_of g) = filter is_Global g" by (rule map_Global_nodes_of)
  show "map Output (output_nodes_of g) = filter is_Output g" by (rule map_Output_nodes_of)
  show "length (input_nodes_of g) + length (option_nodes_of g) + length (filter_nodes_of g) +
      length (global_nodes_of g) + length (output_nodes_of g) = length g"
    by (rule length_nodes_of)
qed

section \<open>The direct path\<close>

lemma no_filter_graph_parts:
  "filter_nodes_of no_filter_graph = []"
  "option_nodes_of no_filter_graph = [OptionNode (VStr ''-t'') (VInt 10) (PStr ''o'')]"
  "global_nodes_of no_filter_graph = [concat_node]"
  "input_nodes_of no_filter_graph = [\<lparr>InputNode.name = VStr ''a.mp4'', index = 0\<rparr>]"
  "output_nodes_of no_filter_graph =
     [\<lparr>OutputNode.name = VStr ''out.wav'', inputs = [Label ''0:a'']\<rparr>]"
  by (simp_all add: nodes_of_defs no_filter_graph_def)

text \<open>
  C2: a graph with no FilterNode compiles by the direct path, whatever OptionNodes and
  GlobalNodes it holds: the command is the program name \<^verbatim>\<open>ffmpeg\<close> (the default of
  \<^verbatim>\<open>_no_filter_command\<close>, whatever \<open>cmd\<close> is), the flag \<^verbatim>\<open>-y\<close>, one \<^verbatim>\<open>-i name\<close> segment per
  InputNode in order, and one name segment per OutputNode in order; nothing else.
\<close>

theorem no_filter_direct_path:
  "filter_nodes_of g = [] \<Longrightarrow>
   get_command_from_graph g cmd =
     Inr (''ffmpeg'' @ '' -y'' @
          concat (map (\<lambda>inp. '' -i '' @ py_str (InputNode.name inp) @ '' '') (input_nodes_of g)) @
          concat (map (\<lambda>out. '' '' @ py_str (OutputNode.name out) @ '' '') (output_nodes_of g)))"
  using direct_path_command [of g cmd]
  by (simp add: input_segment_def [abs_def] output_segment_def [abs_def])

theorem no_filter_direct_path_witness:
  "filter_nodes_of no_filter_graph = [] \<and>
   option_nodes_of no_filter_graph \<noteq> [] \<and> global_nodes_of no_filter_graph \<noteq> [] \<and>
   get_command_from_graph no_filter_graph ''ffmpeg'' = Inr ''ffmpeg -y -i a.mp4  out.wav ''"
  using no_filter_direct_path [of no_filter_graph "''ffmpeg''"]
  by (simp add: no_filter_graph_parts)

section \<open>The filter path\<close>

text \<open>
  C3: a FilterNode with at least one parameter is printed as its input label, a space,
  the filter name, \<^verbatim>\<open>=\<close>, the parameters \<^verbatim>\<open>k=v\<close> joined by \<^verbatim>\<open>:\<close> in insertion order with no
  separator after the last, a space, the output label and \<^verbatim>\<open>;\<close>. The graph of scenario A
  compiles to a command whose quoted filter graph is \<^verbatim>\<open>[0:v] scale=w=320:h=240 [v1]\<close>, with
  no semicolon at its end.
\<close>

theorem filter_statement_format:
  "(params node \<noteq> [] \<longrightarrow>
      get_str_from_filter node =
        Inr (in_label node @ '' '' @ filter_name node @ ''='' @
             join '':'' (map (\<lambda>(k, v). k @ ''='' @ py_str v) (params node)) @
             '' '' @ out_label node @ '';'')) \<and>
   get_command_from_graph scenario_A ''ffmpeg'' =
     Inr ''ffmpeg -i a.mp4  -y -filter_complex \"[0:v] scale=w=320:h=240 [v1]\" -map \"[v1]\" out.mp4 ''"
proof
  have "param_str = (\<lambda>(k, v). k @ ''='' @ py_str v)"
    by (rule ext) (simp add: param_str_def split: prod.splits)
  then show "params node \<noteq> [] \<longrightarrow>
      get_str_from_filter node =
        Inr (in_label node @ '' '' @ filter_name node @ ''='' @
             join '':'' (map (\<lambda>(k, v). k @ ''='' @ py_str v) (params node)) @
             '' '' @ out_label node @ '';'')"
    using get_str_from_filter_stmt [of node] by (simp add: filter_stmt_def)
  show "get_command_from_graph scenario_A ''ffmpeg'' =
     Inr ''ffmpeg -i a.mp4  -y -filter_complex \"[0:v] scale=w=320:h=240 [v1]\" -map \"[v1]\" out.mp4 ''"
    by code_simp
qed

theorem filter_statement_format_witness:
  "params scale_node \<noteq> [] \<and>
   get_str_from_filter scale_node = Inr ''[0:v] scale=w=320:h=240 [v1];''"
proof -
  have p: "params scale_node \<noteq> []" by (simp add: scale_node_def)
  have e: "in_label scale_node @ '' '' @ filter_name scale_node @ ''='' @
             join '':'' (map (\<lambda>(k, v). k @ ''='' @ py_str v) (params scale_node)) @
             '' '' @ out_label scale_node @ '';'' = ''[0:v] scale=w=320:h=240 [v1];''"
    by code_simp
  from filter_statement_format [of scale_node] p e show ?thesis by simp
qed

lemma map_segments_nth:
  "i < length (OutputNode.inputs out) \<Longrightarrow>
   map_segments out ! i =
     '' -map \"['' @ label (OutputNode.inputs out ! i) @ '']\" '' @ py_str (OutputNode.name out) @ '' ''"
  by (simp add: map_segments_def map_segment_def)

text \<open>
  C5: when the filter path returns a command, the command is the part up to the closing
  quote of the filter graph followed by the map segments of every OutputNode in order. An
  OutputNode with M input labels has exactly M map segments, the i-th being
  \<^verbatim>\<open>-map "[label]"\<close> for its i-th input label followed by the node's destination name;
  a label that occurs again, in the same node or in another, gets a segment each time.
\<close>

theorem map_fan_out:
  assumes "get_command_from_graph g cmd = Inr command"
    and "filter_nodes_of g \<noteq> []"
  shows "command =
      filter_path_head cmd g (butlast (filter_nodes_of g))
        (replace_semicolon (filter_stmt (last (filter_nodes_of g)))) @
      concat (map (\<lambda>out. concat (map_segments out)) (output_nodes_of g)) \<and>
    (\<forall>out. length (map_segments out) = length (OutputNode.inputs out) \<and>
      (\<forall>i < length (OutputNode.inputs out).
         map_segments out ! i =
           '' -map \"['' @ label (OutputNode.inputs out ! i) @ '']\" '' @
           py_str (OutputNode.name out) @ '' ''))"
proof
  from assms(2)
  have fs: "filter_nodes_of g = butlast (filter_nodes_of g) @ [last (filter_nodes_of g)]"
    by simp
  from filter_path_command_Inr [OF assms]
  have "list_all (\<lambda>n. params n \<noteq> []) (butlast (filter_nodes_of g) @ [last (filter_nodes_of g)])"
    using fs by simp
  from filter_path_command [OF fs this, of cmd] assms(1)
  show "command =
      filter_path_head cmd g (butlast (filter_nodes_of g))
        (replace_semicolon (filter_stmt (last (filter_nodes_of g)))) @
      concat (map (\<lambda>out. concat (map_segments out)) (output_nodes_of g))"
    by simp
  show "\<forall>out. length (map_segments out) = length (OutputNode.inputs out) \<and>
      (\<forall>i < length (OutputNode.inputs out).
         map_segments out ! i =
           '' -map \"['' @ label (OutputNode.inputs out ! i) @ '']\" '' @
           py_str (OutputNode.name out) @ '' '')"
    using map_segments_nth by (simp add: map_segments_def)
qed

theorem map_fan_out_witness:
  "get_command_from_graph fan_out_graph ''ffmpeg'' =
     Inr ''ffmpeg -i a.mp4  -y -filter_complex \"[0:v] scale=w=320:h=240 [v1];[0:v][0:a] concat=n=1:v=1:a=1 [v][a];[v1] fade=t=in:d=2 [v2]\" -map \"[v2]\" x.mp4  -map \"[v2]\" x.mp4  -map \"[v2]\" y.mp4 '' \<and>
   filter_nodes_of fan_out_graph \<noteq> [] \<and>
   ''ffmpeg -i a.mp4  -y -filter_complex \"[0:v] scale=w=320:h=240 [v1];[0:v][0:a] concat=n=1:v=1:a=1 [v][a];[v1] fade=t=in:d=2 [v2]\" -map \"[v2]\" x.mp4  -map \"[v2]\" x.mp4  -map \"[v2]\" y.mp4 '' =
     filter_path_head ''ffmpeg'' fan_out_graph (butlast (filter_nodes_of fan_out_graph))
        (replace_semicolon (filter_stmt (last (filter_nodes_of fan_out_graph)))) @
     concat (map (\<lambda>out. concat (map_segments out)) (output_nodes_of fan_out_graph)) \<and>
   concat (map (\<lambda>out. concat (map_segments out)) (output_nodes_of fan_out_graph)) =
     '' -map \"[v2]\" x.mp4  -map \"[v2]\" x.mp4  -map \"[v2]\" y.mp4 ''"
proof -
  have c: "get_command_from_graph fan_out_graph ''ffmpeg'' =
     Inr ''ffmpeg -i a.mp4  -y -filter_complex \"[0:v] scale=w=320:h=240 [v1];[0:v][0:a] concat=n=1:v=1:a=1 [v][a];[v1] fade=t=in:d=2 [v2]\" -map \"[v2]\" x.mp4  -map \"[v2]\" x.mp4  -map \"[v2]\" y.mp4 ''"
    by code_simp
  have n: "filter_nodes_of fan_out_graph \<noteq> []"
    by (simp add: filter_nodes_of_def fan_out_graph_def)
  have m: "concat (map (\<lambda>out. concat (map_segments out)) (output_nodes_of fan_out_graph)) =
     '' -map \"[v2]\" x.mp4  -map \"[v2]\" x.mp4  -map \"[v2]\" y.mp4 ''"
    by code_simp
  from map_fan_out [OF c n] c n m show ?thesis by blast
qed

lemma replace_semicolon_trailing:
  "CHR '';'' \<notin> set s \<Longrightarrow> replace_semicolon (s @ '';'') = s"
  by (auto simp: replace_semicolon_def filter_id_conv)

text \<open>
  C1, at the graph \<open>drawtext_graph\<close>: the statement of its only FilterNode is
  \<^verbatim>\<open>[0:v] drawtext=text=a;b [v1];\<close>, and the filter graph of the compiled command is
  \<^verbatim>\<open>[0:v] drawtext=text=ab [v1]\<close>. The last statement loses the semicolon inside the
  parameter value together with the trailing one.
\<close>

theorem last_filter_loses_every_semicolon:
  "get_str_from_filter drawtext_node = Inr ''[0:v] drawtext=text=a;b [v1];'' \<and>
   get_command_from_graph drawtext_graph ''ffmpeg'' =
     Inr ''ffmpeg -i a.mp4  -y -filter_complex \"[0:v] drawtext=text=ab [v1]\" -map \"[v1]\" out.mp4 ''"
  by code_simp

lemma last_statement_without_semicolons:
  assumes "CHR '';'' \<notin> set (in_label n @ '' '' @ filter_name n @ ''='' @
             join '':'' (map param_str (params n)) @ '' '' @ out_label n)"
  shows "replace_semicolon (filter_stmt n) = butlast (filter_stmt n)"
proof -
  have "filter_stmt n =
      (in_label n @ '' '' @ filter_name n @ ''='' @
       join '':'' (map param_str (params n)) @ '' '' @ out_label n) @ '';''"
    by (simp add: filter_stmt_def)
  then show ?thesis
    using replace_semicolon_trailing [OF assms] by (simp add: butlast_append)
qed

section \<open>The builders\<close>

lemma check_arg_type_iff:
  "check_arg_type pargs \<longleftrightarrow>
     (\<exists>caller rest. pargs = caller # rest \<and>
        (is_PInputNode caller \<or> is_POptionNode caller \<or> is_PFilterNode caller \<or>
         is_PGlobalNode caller \<or> is_PLabel caller \<or> is_PList caller))"
  by (cases pargs) simp_all

text \<open>
  C4, as the code has it: the builders \<^verbatim>\<open>filter\<close> and \<^verbatim>\<open>output\<close> validate their caller, the
  first positional argument. When it is present and is not an InputNode, an OptionNode, a
  FilterNode, a GlobalNode, a Label or a list, the call raises TypeMissing, whatever the
  other arguments, the constructor of the node and the registry are, and the registry is
  as it was: no node has been created or appended.
\<close>

theorem filter_output_validate_caller:
  assumes "\<not> is_PInputNode caller" and "\<not> is_POptionNode caller"
    and "\<not> is_PFilterNode caller" and "\<not> is_PGlobalNode caller"
    and "\<not> is_PLabel caller" and "\<not> is_PList caller"
  shows "filter_builder FilterNode_init (caller # rest) kwargs s =
      (Inl (TypeMissing ''Filter requires an filter or input type argument''), s) \<and>
    output_builder (caller # rest) kwargs' s =
      (Inl (TypeMissing ''Output requires an filter or input type argument''), s)"
  using assms by (simp add: filter_builder_def output_builder_def)

text \<open>
  The theorem at two callers: the integer 5 on an empty registry, and an OutputNode, which
  is not among the classes \<^verbatim>\<open>_check_arg_type\<close> tests, on the registry of scenario A.
\<close>

theorem filter_output_validate_caller_witness:
  "\<not> is_PInputNode (PInt 5) \<and> \<not> is_POptionNode (PInt 5) \<and> \<not> is_PFilterNode (PInt 5) \<and>
   \<not> is_PGlobalNode (PInt 5) \<and> \<not> is_PLabel (PInt 5) \<and> \<not> is_PList (PInt 5) \<and>
   filter_builder (\<lambda>kw. Inr scale_node) [PInt 5] [(''filter_name'', PStr ''scale'')] empty_stream =
     (Inl (TypeMissing ''Filter requires an filter or input type argument''), empty_stream) \<and>
   output_builder [PInt 5] [(''name'', VStr ''out.mp4'')] empty_stream =
     (Inl (TypeMissing ''Output requires an filter or input type argument''), empty_stream) \<and>
   filter_builder (\<lambda>kw. Inr scale_node)
       [POutputNode \<lparr>OutputNode.name = VStr ''out.mp4'', inputs = [Label ''v1'']\<rparr>]
       [(''filter_name'', PStr ''scale'')] \<lparr>nodes = scenario_A, count = 1\<rparr> =
     (Inl (TypeMissing ''Filter requires an filter or input type argument''),
      \<lparr>nodes = scenario_A, count = 1\<rparr>) \<and>
   output_builder
       [POutputNode \<lparr>OutputNode.name = VStr ''out.mp4'', inputs = [Label ''v1'']\<rparr>]
       [(''name'', VStr ''copy.mp4'')] \<lparr>nodes = scenario_A, count = 1\<rparr> =
     (Inl (TypeMissing ''Output requires an filter or input type argument''),
      \<lparr>nodes = scenario_A, count = 1\<rparr>)"
proof -
  have a: "\<not> is_PInputNode (PInt 5)" "\<not> is_POptionNode (PInt 5)" "\<not> is_PFilterNode (PInt 5)"
    "\<not> is_PGlobalNode (PInt 5)" "\<not> is_PLabel (PInt 5)" "\<not> is_PList (PInt 5)"
    by simp_all
  have b: "\<not> is_PInputNode (POutputNode out)" "\<not> is_POptionNode (POutputNode out)"
    "\<not> is_PFilterNode (POutputNode out)" "\<not> is_PGlobalNode (POutputNode out)"
    "\<not> is_PLabel (POutputNode out)" "\<not> is_PList (POutputNode out)" for out
    by simp_all
  from filter_output_validate_caller [OF a] filter_output_validate_caller [OF b] a
  show ?thesis by blast
qed

text \<open>
  The claim as it was stated, for every builder and with a list of recognised values,
  fails. The integer 5 is none of the six recognised kinds, and yet
  \<^item> \<^verbatim>\<open>input(5, name="a.mp4")\<close> returns its InputNode and appends it;
  \<^item> \<^verbatim>\<open>option(5, tag="-t", name=10, output="o")\<close> returns its OptionNode and appends it;
  \<^item> \<^verbatim>\<open>arg(caller=5, args="concat", outputs="o", inputs="0:v")\<close> returns its GlobalNode and
    appends it, the caller being skipped when \<^verbatim>\<open>inputs\<close> is given;
  \<^item> \<^verbatim>\<open>output([5])\<close>, whose caller is a list holding 5, raises nothing and returns \<^verbatim>\<open>None\<close>;
  \<^item> \<^verbatim>\<open>output([5], name="out.mp4")\<close> raises the TypeMissing of \<^verbatim>\<open>_get_label_param\<close>, with
    its message, after the OutputNode has been constructed;
  \<^item> \<^verbatim>\<open>filter([5], filter_name="scale")\<close> calls the constructor of the FilterNode before it
    looks at the elements of the list: when the constructor raises, its exception is the
    one the call raises.
\<close>

theorem unvalidated_builders_counterexample:
  "\<not> is_PInputNode (PInt 5) \<and> \<not> is_POptionNode (PInt 5) \<and> \<not> is_PFilterNode (PInt 5) \<and>
   \<not> is_PGlobalNode (PInt 5) \<and> \<not> is_PLabel (PInt 5) \<and> \<not> is_PList (PInt 5) \<and>
   input_builder [PInt 5] (VStr ''a.mp4'') empty_stream =
     (Inr \<lparr>InputNode.name = VStr ''a.mp4'', index = 0\<rparr>,
      \<lparr>nodes = [Input \<lparr>InputNode.name = VStr ''a.mp4'', index = 0\<rparr>], count = 1\<rparr>) \<and>
   option_builder [PInt 5] (VStr ''-t'') (VInt 10) (PStr ''o'') empty_stream =
     (Inr (OptionNode (VStr ''-t'') (VInt 10) (PStr ''o'')),
      \<lparr>nodes = [Option (OptionNode (VStr ''-t'') (VInt 10) (PStr ''o''))], count = 0\<rparr>) \<and>
   arg (PInt 5) (VStr ''concat'') (PStr ''o'') (PStr ''0:v'') empty_stream =
     (Inr \<lparr>GlobalNode.inputs = [Label ''0:v''], outputs = [Label ''o''], args = VStr ''concat''\<rparr>,
      \<lparr>nodes = [Global \<lparr>GlobalNode.inputs = [Label ''0:v''], outputs = [Label ''o''],
                          args = VStr ''concat''\<rparr>], count = 0\<rparr>) \<and>
   output_builder [PList [PInt 5]] [] empty_stream = (Inr None, empty_stream) \<and>
   output_builder [PList [PInt 5]] [(''name'', VStr ''out.mp4'')] empty_stream =
     (Inl (TypeMissing ''Filter requires an filter or input type argument''), empty_stream) \<and>
   filter_builder (\<lambda>kw. Inl FilterParamsMissing) [PList [PInt 5]]
       [(''filter_name'', PStr ''scale'')] empty_stream =
     (Inl FilterParamsMissing, empty_stream)"
  by (simp add: input_builder_def option_builder_def arg_def output_builder_def
      filter_builder_def label_params_def add_def empty_stream_def Let_def)

text \<open>
  When \<^verbatim>\<open>inputs\<close> is not given, \<^verbatim>\<open>arg\<close> hands its caller to \<^verbatim>\<open>_get_label_param\<close>, which
  raises TypeMissing for the integer 5.
\<close>

lemma arg_without_inputs_checks_caller:
  "arg (PInt 5) (VStr ''concat'') (PStr ''o'') PNone empty_stream =
     (Inl (TypeMissing ''Filter requires an filter or input type argument''), empty_stream)"
  by (simp add: arg_def label_params_def)

lemma label_params_None:
  "label_params PNone = Inl (TypeMissing ''Filter requires an filter or input type argument'')"
  by (simp add: label_params_def)

lemma arg_without_outputs_fails:
  "\<exists>e. arg caller args' PNone inputs' s = (Inl e, s)"
  by (cases "label_params (if inputs' \<noteq> PNone then inputs' else caller)")
     (simp_all add: arg_def label_params_None)

text \<open>
  C8, at the call \<^verbatim>\<open>arg(inputs=["0:v", "1:v"], args="concat=n=2:v=1:a=0")\<close> on an empty
  registry: \<^verbatim>\<open>outputs\<close> is \<^verbatim>\<open>None\<close>, \<^verbatim>\<open>_get_label_param(None)\<close> raises TypeMissing, and no
  GlobalNode is returned or appended. By \<open>arg_without_outputs_fails\<close> every call without
  outputs ends in an exception.
\<close>

theorem arg_default_outputs_raises:
  "arg PNone (VStr ''concat=n=2:v=1:a=0'') PNone (PList [PStr ''0:v'', PStr ''1:v'']) empty_stream =
     (Inl (TypeMissing ''Filter requires an filter or input type argument''), empty_stream)"
  by (simp add: arg_def label_params_def)

lemma option_without_output_fails:
  "option_builder pargs tag' name' PNone s =
     (Inl (TypeMissing ''Filter requires an filter or input type argument''), s)"
  by (simp add: option_builder_def label_params_None)

text \<open>
  C9, at the call \<^verbatim>\<open>option(tag="-t", name=10)\<close> on an empty registry: \<^verbatim>\<open>output\<close> is
  \<^verbatim>\<open>None\<close>, \<^verbatim>\<open>_get_label_param(None)\<close> raises TypeMissing, and no OptionNode is constructed
  or appended. By \<open>option_without_output_fails\<close> this is so for every tag and name.
\<close>

theorem option_default_output_raises:
  "option_builder [] (VStr ''-t'') (VInt 10) PNone empty_stream =
     (Inl (TypeMissing ''Filter requires an filter or input type argument''), empty_stream)"
  by (simp add: option_builder_def label_params_def)

text \<open>
  C10: when the positional arguments of \<^verbatim>\<open>output\<close> pass the type check and the keyword
  arguments have no entry \<^verbatim>\<open>name\<close>, the call returns \<^verbatim>\<open>None\<close>, raises nothing and leaves
  the registry as it was.
\<close>

theorem output_without_name_returns_None:
  "check_arg_type pargs \<Longrightarrow> map_of kwargs ''name'' = None \<Longrightarrow>
   output_builder pargs kwargs s = (Inr None, s)"
  by (simp add: output_builder_def)

theorem output_without_name_returns_None_witness:
  "check_arg_type [PFilterNode scale_node] \<and>
   map_of [(''nam'', VStr ''out.mp4'')] ''name'' = None \<and>
   output_builder [PFilterNode scale_node] [(''nam'', VStr ''out.mp4'')]
       \<lparr>nodes = scenario_A, count = 1\<rparr> =
     (Inr None, \<lparr>nodes = scenario_A, count = 1\<rparr>)"
proof -
  have h: "check_arg_type [PFilterNode scale_node]" by simp
  have k: "map_of [(''nam'', VStr ''out.mp4'')] ''name'' = None" by simp
  from output_without_name_returns_None [OF h k] h k show ?thesis by blast
qed

section \<open>The run operation\<close>

lemma run_output_node_launches:
  "run (\<lambda>command. (''done'', 0)) (POutputNode out)
       \<lparr>registry = \<lparr>nodes = scenario_A, count = 1\<rparr>, launched = []\<rparr> =
     (Inr (''done'', VNone),
      \<lparr>registry = \<lparr>nodes = scenario_A, count = 1\<rparr>,
       launched = [''ffmpeg -i a.mp4  -y -filter_complex \"[0:v] scale=w=320:h=240 [v1]\" -map \"[v1]\" out.mp4 '']\<rparr>)"
proof -
  have "get_command_from_graph scenario_A ''ffmpeg'' =
     Inr ''ffmpeg -i a.mp4  -y -filter_complex \"[0:v] scale=w=320:h=240 [v1]\" -map \"[v1]\" out.mp4 ''"
    by code_simp
  then show ?thesis by (simp add: run_def graph_def)
qed

text \<open>
  C6: when the caller is not an OutputNode, \<^verbatim>\<open>run\<close> raises OutputNodeMissingInRun, whatever
  the registry holds and whatever the external process would do; the state is as it was,
  so no command line has been compiled or handed to a process.
\<close>

theorem run_requires_output_node:
  "\<not> is_POutputNode caller \<Longrightarrow> run popen caller w = (Inl OutputNodeMissingInRun, w)"
  by (simp add: run_def)

theorem run_requires_output_node_witness:
  "\<not> is_POutputNode (PFilterNode scale_node) \<and>
   run (\<lambda>command. ([], 0)) (PFilterNode scale_node)
       \<lparr>registry = \<lparr>nodes = scenario_A, count = 1\<rparr>, launched = []\<rparr> =
     (Inl OutputNodeMissingInRun, \<lparr>registry = \<lparr>nodes = scenario_A, count = 1\<rparr>, launched = []\<rparr>)"
proof -
  have h: "\<not> is_POutputNode (PFilterNode scale_node)" by simp
  from run_requires_output_node [OF h] h show ?thesis by blast
qed

end
